theory Spec2Isabelle
  imports
    Complex_Main
    "HOL-Library.Char_ord"
    "HOL-Library.List_Lexorder"
    "HOL-Library.Product_Lexorder"
begin

section \<open>The store\<close>

text \<open>
  The tables of \<^verbatim>\<open>database_manager.py\<close> (\<^verbatim>\<open>init_database\<close>) as lists of rows in
  rowid order. A nullable column is an \<open>option\<close>; \<^verbatim>\<open>REAL\<close> columns and Python floats
  are modelled by \<open>real\<close>, so rounding of binary floating point is outside the model.
  Strings are byte lists (UTF-8), compared as SQLite's default \<^verbatim>\<open>BINARY\<close> collation
  compares texts (lexicographically, a proper prefix first); the column \<^verbatim>\<open>test_date\<close>
  has an affinity of its own, modelled with the queries that compare it. Field names
  carry the table's initials because record fields share one name space.
\<close>

record test_type =
  tt_test_type_id :: int
  tt_test_name :: string
  tt_normal_min :: "real option"
  tt_normal_max :: "real option"
  tt_unit :: "string option"
  tt_description :: "string option"
  tt_category :: "string option"
  tt_critical_low :: "real option"
  tt_critical_high :: "real option"
  tt_method :: "string option"

record custom_range =
  cr_range_id :: int
  cr_test_type_id :: int
  cr_range_name :: string
  cr_age_min :: "int option"
  cr_age_max :: "int option"
  cr_gender :: "string option"
  cr_condition_name :: "string option"
  cr_normal_min :: "real option"
  cr_normal_max :: "real option"
  cr_critical_low :: "real option"
  cr_critical_high :: "real option"
  cr_is_active :: bool
  cr_notes :: "string option"

record test_result =
  tr_result_id :: int
  tr_patient_id :: string
  tr_test_type_id :: int
  tr_test_value :: real
  tr_test_date :: string
  tr_lab_technician :: "string option"
  tr_notes :: "string option"

record patient =
  pt_patient_id :: string
  pt_first_name :: "string option"
  pt_last_name :: "string option"
  pt_date_of_birth :: "string option"
  pt_gender :: "string option"

text \<open>
  \<open>seq_test_types\<close> and \<open>seq_test_results\<close> are the \<^verbatim>\<open>AUTOINCREMENT\<close> counters:
  the largest id ever handed out for the table. \<open>faults\<close> is the behaviour of the
  storage layer in the ingestion path: each \<^verbatim>\<open>connect\<close>, \<^verbatim>\<open>execute\<close> and
  \<^verbatim>\<open>commit\<close> of \<^verbatim>\<open>check_duplicate_test_result\<close> and \<^verbatim>\<open>add_test_result\<close> takes the head
  of the list, and \<open>True\<close> there makes the call raise \<^verbatim>\<open>sqlite3.Error\<close>; an empty list
  is a store that answers every call. The catalogue reads of the range resolution are
  modelled on a store that answers.
\<close>

record database =
  test_types :: "test_type list"
  custom_test_ranges :: "custom_range list"
  test_results :: "test_result list"
  patients :: "patient list"
  seq_test_types :: int
  seq_test_results :: int
  faults :: "bool list"

text \<open>Python truthiness of an optional string: \<^verbatim>\<open>None\<close> and \<^verbatim>\<open>''\<close> are false.\<close>

definition truthy :: "string option \<Rightarrow> bool" where
  "truthy s = (case s of None \<Rightarrow> False | Some x \<Rightarrow> (case x of [] \<Rightarrow> False | _ # _ \<Rightarrow> True))"

definition get_test_type_by_name :: "database \<Rightarrow> string \<Rightarrow> test_type option" where
  "get_test_type_by_name db test_name =
     find (\<lambda>t. tt_test_name t = test_name) (test_types db)"

section \<open>Range resolution\<close>

text \<open>
  \<^verbatim>\<open>get_best_matching_range\<close> builds its \<^verbatim>\<open>WHERE\<close> clause from the attributes that
  were supplied: \<open>conditions\<close> is the Python list of that name, one predicate per SQL
  condition. The \<^verbatim>\<open>ORDER BY\<close> key is the specificity score, descending, then
  \<^verbatim>\<open>range_name\<close>; \<^verbatim>\<open>LIMIT 1\<close> keeps the first row. Rows equal in both keys are
  kept in rowid order (the sort is stable); SQL leaves their order open.
\<close>

definition specificity :: "custom_range \<Rightarrow> int" where
  "specificity c =
     (case cr_condition_name c of None \<Rightarrow> 0 | Some _ \<Rightarrow> 4) +
     (case cr_gender c of None \<Rightarrow> 0 | Some _ \<Rightarrow> 2) +
     (case cr_age_min c of
        Some _ \<Rightarrow> 1
      | None \<Rightarrow> (case cr_age_max c of Some _ \<Rightarrow> 1 | None \<Rightarrow> 0))"

definition conditions ::
  "int \<Rightarrow> int option \<Rightarrow> string option \<Rightarrow> string option \<Rightarrow> (custom_range \<Rightarrow> bool) list" where
  "conditions test_type_id age gender condition =
     [\<lambda>c. cr_test_type_id c = test_type_id, \<lambda>c. cr_is_active c] @
     (case age of
        None \<Rightarrow> []
      | Some a \<Rightarrow>
          [\<lambda>c. case cr_age_min c of None \<Rightarrow> True | Some lo \<Rightarrow> lo \<le> a,
           \<lambda>c. case cr_age_max c of None \<Rightarrow> True | Some hi \<Rightarrow> hi \<ge> a]) @
     (if truthy gender
      then [\<lambda>c. case cr_gender c of None \<Rightarrow> True | Some g \<Rightarrow> Some g = gender]
      else []) @
     (if truthy condition
      then [\<lambda>c. case cr_condition_name c of None \<Rightarrow> True | Some n \<Rightarrow> Some n = condition]
      else [])"

definition order_key :: "custom_range \<Rightarrow> int \<times> string" where
  "order_key c = (- specificity c, cr_range_name c)"

definition matching_ranges ::
  "database \<Rightarrow> int \<Rightarrow> int option \<Rightarrow> string option \<Rightarrow> string option \<Rightarrow> custom_range list" where
  "matching_ranges db test_type_id age gender condition =
     sort_key order_key
       (filter (\<lambda>c. list_all (\<lambda>p. p c) (conditions test_type_id age gender condition))
          (custom_test_ranges db))"

definition get_best_matching_range ::
  "database \<Rightarrow> string \<Rightarrow> int option \<Rightarrow> string option \<Rightarrow> string option \<Rightarrow> custom_range option" where
  "get_best_matching_range db test_name age gender condition =
     (case get_test_type_by_name db test_name of
        None \<Rightarrow> None
      | Some test_type \<Rightarrow>
          (case matching_ranges db (tt_test_type_id test_type) age gender condition of
             [] \<Rightarrow> None
           | result # _ \<Rightarrow> Some result))"

text \<open>The dictionary returned by \<^verbatim>\<open>get_age_gender_adjusted_range\<close>.\<close>

record range_info =
  ri_normal_min :: "real option"
  ri_normal_max :: "real option"
  ri_critical_low :: "real option"
  ri_critical_high :: "real option"
  ri_source :: string
  ri_age_adjusted :: bool
  ri_gender_adjusted :: bool

text \<open>The built-in table \<^verbatim>\<open>adjustments\<close>: test name, then gender key, then age group.\<close>

definition adjustments :: "(string \<times> (string \<times> (string \<times> real \<times> real) list) list) list" where
  "adjustments =
    [(''Hemoglobin'',
       [(''Male'', [(''adult'', (13.8, 17.2)), (''child'', (11.0, 16.0)), (''elderly'', (13.0, 16.8))]),
        (''Female'', [(''adult'', (12.1, 15.1)), (''child'', (11.0, 16.0)), (''elderly'', (11.7, 15.5))])]),
     (''Creatinine'',
       [(''Male'', [(''adult'', (0.7, 1.3)), (''child'', (0.3, 0.7)), (''elderly'', (0.8, 1.4))]),
        (''Female'', [(''adult'', (0.6, 1.1)), (''child'', (0.3, 0.7)), (''elderly'', (0.6, 1.2))])]),
     (''HDL Cholesterol'',
       [(''Male'', [(''adult'', (40, 100)), (''child'', (35, 100)), (''elderly'', (40, 100))]),
        (''Female'', [(''adult'', (50, 100)), (''child'', (35, 100)), (''elderly'', (50, 100))])]),
     (''Heart Rate'',
       [(''all'', [(''infant'', (100, 160)), (''child'', (70, 120)), (''teen'', (60, 100)),
                   (''adult'', (60, 100)), (''elderly'', (60, 100))])]),
     (''Blood Pressure Systolic'',
       [(''all'', [(''child'', (80, 110)), (''teen'', (100, 120)), (''adult'', (90, 120)),
                   (''elderly'', (90, 140))])])]"

text \<open>The age group: \<^verbatim>\<open>"adult"\<close> unless the age says otherwise.\<close>

definition age_group_of :: "int option \<Rightarrow> string" where
  "age_group_of age =
     (case age of
        None \<Rightarrow> ''adult''
      | Some a \<Rightarrow>
          if a < 2 then ''infant''
          else if a < 13 then ''child''
          else if a < 18 then ''teen''
          else if a \<ge> 65 then ''elderly''
          else ''adult'')"

definition base_range :: "test_type \<Rightarrow> range_info" where
  "base_range test_type =
     \<lparr>ri_normal_min = tt_normal_min test_type, ri_normal_max = tt_normal_max test_type,
      ri_critical_low = tt_critical_low test_type, ri_critical_high = tt_critical_high test_type,
      ri_source = ''Base range'', ri_age_adjusted = False, ri_gender_adjusted = False\<rparr>"

text \<open>
  The fallback system of \<^verbatim>\<open>get_age_gender_adjusted_range\<close>, entered when no custom
  range matched. \<open>gender_key\<close> is the supplied gender where the first branch is taken.
\<close>

definition table_range :: "test_type \<Rightarrow> string \<Rightarrow> int option \<Rightarrow> string option \<Rightarrow> range_info" where
  "table_range test_type test_name age gender =
     (case map_of adjustments test_name of
        None \<Rightarrow> base_range test_type
      | Some test_adj \<Rightarrow>
          (let age_group = age_group_of age;
               age_adjusted = (case age of None \<Rightarrow> False | Some _ \<Rightarrow> True);
               gender_key = (case gender of None \<Rightarrow> [] | Some g \<Rightarrow> g)
           in case (if truthy gender then map_of test_adj gender_key else None) of
                Some by_age \<Rightarrow>
                  (case map_of by_age age_group of
                     Some (adj_min, adj_max) \<Rightarrow>
                       \<lparr>ri_normal_min = Some adj_min, ri_normal_max = Some adj_max,
                        ri_critical_low = tt_critical_low test_type,
                        ri_critical_high = tt_critical_high test_type,
                        ri_source =
                          (if age_adjusted
                           then ''Age/gender adjusted ('' @ age_group @ '', '' @ gender_key @ '')''
                           else ''Gender adjusted (assumed adult, '' @ gender_key @ '')''),
                        ri_age_adjusted = age_adjusted, ri_gender_adjusted = True\<rparr>
                   | None \<Rightarrow> base_range test_type)
              | None \<Rightarrow>
                  (case map_of test_adj ''all'' of
                     None \<Rightarrow> base_range test_type
                   | Some by_age \<Rightarrow>
                       (case map_of by_age age_group of
                          None \<Rightarrow> base_range test_type
                        | Some (adj_min, adj_max) \<Rightarrow>
                            \<lparr>ri_normal_min = Some adj_min, ri_normal_max = Some adj_max,
                             ri_critical_low = tt_critical_low test_type,
                             ri_critical_high = tt_critical_high test_type,
                             ri_source =
                               (if age_adjusted
                                then ''Age adjusted ('' @ age_group @ '')''
                                else ''General range (assumed adult)''),
                             ri_age_adjusted = age_adjusted, ri_gender_adjusted = False\<rparr>))))"

definition no_range_found :: range_info where
  "no_range_found =
     \<lparr>ri_normal_min = None, ri_normal_max = None, ri_critical_low = None,
      ri_critical_high = None, ri_source = ''No range found'',
      ri_age_adjusted = False, ri_gender_adjusted = False\<rparr>"

definition get_age_gender_adjusted_range ::
  "database \<Rightarrow> string \<Rightarrow> int option \<Rightarrow> string option \<Rightarrow> string option \<Rightarrow> range_info" where
  "get_age_gender_adjusted_range db test_name age gender condition =
     (let custom_range = get_best_matching_range db test_name age gender condition
      in case get_test_type_by_name db test_name of
           None \<Rightarrow> no_range_found
         | Some test_type \<Rightarrow>
             (case custom_range of
                Some cr \<Rightarrow>
                  \<lparr>ri_normal_min = cr_normal_min cr, ri_normal_max = cr_normal_max cr,
                   ri_critical_low =
                     (case cr_critical_low cr of
                        Some x \<Rightarrow> Some x | None \<Rightarrow> tt_critical_low test_type),
                   ri_critical_high =
                     (case cr_critical_high cr of
                        Some x \<Rightarrow> Some x | None \<Rightarrow> tt_critical_high test_type),
                   ri_source = ''Custom range: '' @ cr_range_name cr,
                   ri_age_adjusted = (case age of None \<Rightarrow> False | Some _ \<Rightarrow> True),
                   ri_gender_adjusted = (case gender of None \<Rightarrow> False | Some _ \<Rightarrow> True)\<rparr>
              | None \<Rightarrow> table_range test_type test_name age gender))"

section \<open>Status classification\<close>

text \<open>
  \<^verbatim>\<open>ReportGenerator.determine_test_status\<close>. The instance attribute
  \<^verbatim>\<open>_last_range_info\<close> is the state: \<open>None\<close> before the first assignment (the
  \<^verbatim>\<open>hasattr\<close> test fails), and the function returns the status with the new state.
  The thresholds read from the store are floats already, so the \<^verbatim>\<open>float(...)\<close>
  conversions change nothing.
\<close>

text \<open>
  The first block of the function: the range looked up for the test name, kept only when
  a name was given and both normal bounds came back.
\<close>

definition looked_up_range ::
  "database \<Rightarrow> string option \<Rightarrow> int option \<Rightarrow> string option \<Rightarrow> range_info option" where
  "looked_up_range db test_name age gender =
     (case test_name of
        None \<Rightarrow> None
      | Some name \<Rightarrow>
          if truthy test_name
          then (let range_info = get_age_gender_adjusted_range db name age gender None
                in case ri_normal_min range_info of
                     None \<Rightarrow> None
                   | Some _ \<Rightarrow>
                       (case ri_normal_max range_info of
                          None \<Rightarrow> None
                        | Some _ \<Rightarrow> Some range_info))
          else None)"

definition determine_test_status ::
  "database \<Rightarrow> range_info option \<Rightarrow> real \<Rightarrow> real option \<Rightarrow> real option \<Rightarrow>
   string option \<Rightarrow> int option \<Rightarrow> string option \<Rightarrow> string \<times> range_info option" where
  "determine_test_status db last_range_info test_value normal_min normal_max test_name age gender =
     (let looked_up = looked_up_range db test_name age gender;
          normal_min = (case looked_up of Some r \<Rightarrow> ri_normal_min r | None \<Rightarrow> normal_min);
          normal_max = (case looked_up of Some r \<Rightarrow> ri_normal_max r | None \<Rightarrow> normal_max);
          last_range_info = (case looked_up of Some r \<Rightarrow> Some r | None \<Rightarrow> last_range_info)
      in case normal_min of
           None \<Rightarrow> (''unknown'', last_range_info)
         | Some normal_min \<Rightarrow>
             (case normal_max of
                None \<Rightarrow> (''unknown'', last_range_info)
              | Some normal_max \<Rightarrow>
                  (let critical_low =
                         (case last_range_info of Some r \<Rightarrow> ri_critical_low r | None \<Rightarrow> None);
                       critical_high =
                         (case last_range_info of Some r \<Rightarrow> ri_critical_high r | None \<Rightarrow> None);
                       range_width = normal_max - normal_min;
                       (critical_low, critical_high) =
                         (case critical_low of
                            None \<Rightarrow> (normal_min - range_width * 0.3, normal_max + range_width * 0.3)
                          | Some cl \<Rightarrow>
                              (case critical_high of
                                 None \<Rightarrow>
                                   (normal_min - range_width * 0.3, normal_max + range_width * 0.3)
                               | Some ch \<Rightarrow> (cl, ch)))
                   in (if test_value \<ge> critical_high then ''critical_high''
                       else if test_value \<le> critical_low then ''critical_low''
                       else if test_value > normal_max then ''high''
                       else if test_value < normal_min then ''low''
                       else ''normal'',
                       last_range_info))))"

text \<open>
  The threshold block of \<open>determine_test_status\<close> on its own, for the properties
  below: the thresholds the function compares with, given the two it read from the
  cached range and the normal bounds. As the code has it, both are kept when both are
  stored, and both are derived from the normal range as soon as one of them is missing.
\<close>

definition thresholds_in_force ::
  "real option \<Rightarrow> real option \<Rightarrow> real \<Rightarrow> real \<Rightarrow> real \<times> real" where
  "thresholds_in_force critical_low critical_high normal_min normal_max =
     (case critical_low of
        None \<Rightarrow> (normal_min - (normal_max - normal_min) * 0.3,
                 normal_max + (normal_max - normal_min) * 0.3)
      | Some cl \<Rightarrow>
          (case critical_high of
             None \<Rightarrow> (normal_min - (normal_max - normal_min) * 0.3,
                      normal_max + (normal_max - normal_min) * 0.3)
           | Some ch \<Rightarrow> (cl, ch)))"

section \<open>Dates\<close>

text \<open>
  What \<^verbatim>\<open>check_duplicate_test_result\<close> uses of Python's \<^verbatim>\<open>datetime\<close>:
  \<^verbatim>\<open>strptime\<close> with the formats \<^verbatim>\<open>%Y-%m-%d\<close> and \<^verbatim>\<open>%Y-%m-%d %H:%M:%S\<close>,
  \<^verbatim>\<open>strftime('%Y-%m-%d')\<close> and the sum with a \<^verbatim>\<open>timedelta\<close> of minutes.
  \<^verbatim>\<open>strptime\<close> matches the string against the regular expression of the format, in
  which \<^verbatim>\<open>\d\<close> is any decimal digit of Unicode and \<^verbatim>\<open>\s\<close> any white space of
  Unicode (the tables below are those of CPython 3.11, Unicode 14.0), then builds the
  date, which must exist in the proleptic Gregorian calendar in the years 1 to 9999. A
  string that does not parse raises \<^verbatim>\<open>ValueError\<close>, here \<open>None\<close>. A Python string is
  modelled by its UTF-8 bytes and decoded where code points matter.
  \<^verbatim>\<open>strftime\<close> writes the year with four digits; the shorter year some platforms
  write before the year 1000 is outside the model.
\<close>

record datetime =
  dt_year :: int
  dt_month :: int
  dt_day :: int
  dt_hour :: int
  dt_minute :: int
  dt_second :: int

datatype py_exception = Sqlite3Error | OverflowError

definition is_leap :: "int \<Rightarrow> bool" where
  "is_leap y = (if y mod 400 = 0 then True else if y mod 100 = 0 then False else y mod 4 = 0)"

definition days_in_month :: "int \<Rightarrow> int \<Rightarrow> int" where
  "days_in_month y m =
     (if m = 2 then (if is_leap y then 29 else 28)
      else if m = 4 \<or> m = 6 \<or> m = 9 \<or> m = 11 then 30 else 31)"

text \<open>
  The code points of a string. A byte that starts no well-formed sequence stands for a
  value outside Unicode; a Python string has none.
\<close>

definition continuation :: "char \<Rightarrow> bool" where
  "continuation c = (128 \<le> (of_char c :: int) \<and> (of_char c :: int) < 192)"

definition tail_bits :: "char \<Rightarrow> int" where
  "tail_bits c = of_char c - 128"

fun decode_utf8 :: "string \<Rightarrow> int list" where
  "decode_utf8 [] = []"
| "decode_utf8 (a # rest) =
     (let b = (of_char a :: int)
      in if b < 128 then b # decode_utf8 rest
         else if 192 \<le> b \<and> b < 224 \<and> list_all continuation (take 1 rest) \<and> 1 \<le> length rest
         then ((b - 192) * 64 + tail_bits (rest ! 0)) # decode_utf8 (drop 1 rest)
         else if 224 \<le> b \<and> b < 240 \<and> list_all continuation (take 2 rest) \<and> 2 \<le> length rest
         then ((b - 224) * 4096 + tail_bits (rest ! 0) * 64 + tail_bits (rest ! 1)) #
              decode_utf8 (drop 2 rest)
         else if 240 \<le> b \<and> b < 248 \<and> list_all continuation (take 3 rest) \<and> 3 \<le> length rest
         then ((b - 240) * 262144 + tail_bits (rest ! 0) * 4096 + tail_bits (rest ! 1) * 64 +
               tail_bits (rest ! 2)) # decode_utf8 (drop 3 rest)
         else (1114112 + b) # decode_utf8 rest)"

text \<open>The code points \<^verbatim>\<open>\s\<close> matches (those for which \<^verbatim>\<open>str.isspace\<close> holds).\<close>

definition is_space :: "int \<Rightarrow> bool" where
  "is_space cp =
     ((9 \<le> cp \<and> cp \<le> 13) \<or> (28 \<le> cp \<and> cp \<le> 32) \<or> cp = 133 \<or> cp = 160 \<or> cp = 5760 \<or>
      (8192 \<le> cp \<and> cp \<le> 8202) \<or> cp = 8232 \<or> cp = 8233 \<or> cp = 8239 \<or> cp = 8287 \<or>
      cp = 12288)"

text \<open>
  The code points \<^verbatim>\<open>\d\<close> matches: each entry of \<open>digit_zeros\<close> is the digit zero of a
  script and starts a run of ten digits, whose values \<^verbatim>\<open>int\<close> reads.
\<close>

definition digit_zeros :: "int list" where
  "digit_zeros =
     [48, 1632, 1776, 1984, 2406, 2534, 2662, 2790, 2918, 3046, 3174, 3302, 3430, 3558, 3664,
      3792, 3872, 4160, 4240, 6112, 6160, 6470, 6608, 6784, 6800, 6992, 7088, 7232, 7248,
      42528, 43216, 43264, 43472, 43504, 43600, 44016, 65296, 66720, 68912, 69734, 69872,
      69942, 70096, 70384, 70736, 70864, 71248, 71360, 71472, 71904, 72016, 72784, 73040,
      73120, 92768, 92864, 93008, 120782, 120792, 120802, 120812, 120822, 123200, 123632,
      125264, 130032]"

definition digit_val :: "int \<Rightarrow> int option" where
  "digit_val cp =
     (case find (\<lambda>z. z \<le> cp \<and> cp < z + 10) digit_zeros of
        None \<Rightarrow> None
      | Some z \<Rightarrow> Some (cp - z))"

text \<open>A character class of ASCII digits, \<^verbatim>\<open>[lo-hi]\<close>.\<close>

definition ascii_digit :: "int \<Rightarrow> int \<Rightarrow> int \<Rightarrow> int option" where
  "ascii_digit lo hi cp = (if 48 + lo \<le> cp \<and> cp \<le> 48 + hi then Some (cp - 48) else None)"

text \<open>
  The alternatives of a field of the regular expression, each tried against the whole
  token (what follows a field is a separator or the end of the string): two characters
  of given classes, or one.
\<close>

definition two_chars ::
  "(int \<Rightarrow> int option) \<Rightarrow> (int \<Rightarrow> int option) \<Rightarrow> int list \<Rightarrow> int option" where
  "two_chars first_class second_class tok =
     (case tok of
        [a, b] \<Rightarrow>
          (case first_class a of
             None \<Rightarrow> None
           | Some x \<Rightarrow> (case second_class b of None \<Rightarrow> None | Some y \<Rightarrow> Some (10 * x + y)))
      | _ \<Rightarrow> None)"

definition one_char :: "(int \<Rightarrow> int option) \<Rightarrow> int list \<Rightarrow> int option" where
  "one_char char_class tok = (case tok of [a] \<Rightarrow> char_class a | _ \<Rightarrow> None)"

fun first_match :: "int option list \<Rightarrow> int option" where
  "first_match [] = None"
| "first_match (None # alternatives) = first_match alternatives"
| "first_match (Some v # alternatives) = Some v"

text \<open>\<^verbatim>\<open>%Y\<close> is \<^verbatim>\<open>\d\d\d\d\<close>.\<close>

definition year_field :: "int list \<Rightarrow> int option" where
  "year_field tok =
     (case map digit_val tok of
        [Some a, Some b, Some c, Some d] \<Rightarrow> Some (1000 * a + 100 * b + 10 * c + d)
      | _ \<Rightarrow> None)"

text \<open>\<^verbatim>\<open>%m\<close> is \<^verbatim>\<open>1[0-2]|0[1-9]|[1-9]\<close>.\<close>

definition month_field :: "int list \<Rightarrow> int option" where
  "month_field tok =
     first_match
       [two_chars (ascii_digit 1 1) (ascii_digit 0 2) tok,
        two_chars (ascii_digit 0 0) (ascii_digit 1 9) tok,
        one_char (ascii_digit 1 9) tok]"

text \<open>\<^verbatim>\<open>%d\<close> is \<^verbatim>\<open>3[0-1]|[1-2]\d|0[1-9]|[1-9]| [1-9]\<close>.\<close>

definition day_field :: "int list \<Rightarrow> int option" where
  "day_field tok =
     first_match
       [two_chars (ascii_digit 3 3) (ascii_digit 0 1) tok,
        two_chars (ascii_digit 1 2) digit_val tok,
        two_chars (ascii_digit 0 0) (ascii_digit 1 9) tok,
        one_char (ascii_digit 1 9) tok,
        two_chars (\<lambda>cp. if cp = 32 then Some 0 else None) (ascii_digit 1 9) tok]"

text \<open>\<^verbatim>\<open>%H\<close> is \<^verbatim>\<open>2[0-3]|[0-1]\d|\d\<close>.\<close>

definition hour_field :: "int list \<Rightarrow> int option" where
  "hour_field tok =
     first_match
       [two_chars (ascii_digit 2 2) (ascii_digit 0 3) tok,
        two_chars (ascii_digit 0 1) digit_val tok,
        one_char digit_val tok]"

text \<open>\<^verbatim>\<open>%M\<close> is \<^verbatim>\<open>[0-5]\d|\d\<close>.\<close>

definition minute_field :: "int list \<Rightarrow> int option" where
  "minute_field tok =
     first_match [two_chars (ascii_digit 0 5) digit_val tok, one_char digit_val tok]"

text \<open>
  \<^verbatim>\<open>%S\<close> is \<^verbatim>\<open>6[0-1]|[0-5]\d|\d\<close>; the seconds 60 and 61 match and are refused when the
  date is built.
\<close>

definition second_field :: "int list \<Rightarrow> int option" where
  "second_field tok =
     first_match
       [two_chars (ascii_digit 6 6) (ascii_digit 0 1) tok,
        two_chars (ascii_digit 0 5) digit_val tok,
        one_char digit_val tok]"

definition split_at :: "int \<Rightarrow> int list \<Rightarrow> (int list \<times> int list) option" where
  "split_at sep s =
     (case dropWhile (\<lambda>c. c \<noteq> sep) s of
        [] \<Rightarrow> None
      | _ # rest \<Rightarrow> Some (takeWhile (\<lambda>c. c \<noteq> sep) s, rest))"

text \<open>The constructor of \<^verbatim>\<open>datetime\<close>, which raises \<^verbatim>\<open>ValueError\<close> out of range.\<close>

definition make_datetime ::
  "int option \<Rightarrow> int option \<Rightarrow> int option \<Rightarrow> int option \<Rightarrow> int option \<Rightarrow> int option \<Rightarrow>
   datetime option" where
  "make_datetime y m d hh mm ss =
     (case (y, m, d, hh, mm, ss) of
        (Some y, Some m, Some d, Some hh, Some mm, Some ss) \<Rightarrow>
          if 1 \<le> y \<and> d \<le> days_in_month y m \<and> ss \<le> 59
          then Some \<lparr>dt_year = y, dt_month = m, dt_day = d,
                     dt_hour = hh, dt_minute = mm, dt_second = ss\<rparr>
          else None
      | _ \<Rightarrow> None)"

text \<open>\<^verbatim>\<open>datetime.strptime(s, '%Y-%m-%d')\<close>: the day is all that follows the second hyphen.\<close>

definition strptime_ymd :: "string \<Rightarrow> datetime option" where
  "strptime_ymd s =
     (case split_at 45 (decode_utf8 s) of
        None \<Rightarrow> None
      | Some (y_tok, r1) \<Rightarrow>
          (case split_at 45 r1 of
             None \<Rightarrow> None
           | Some (m_tok, d_tok) \<Rightarrow>
               make_datetime (year_field y_tok) (month_field m_tok) (day_field d_tok)
                 (Some 0) (Some 0) (Some 0)))"

text \<open>
  \<^verbatim>\<open>datetime.strptime(s, '%Y-%m-%d %H:%M:%S')\<close>: the day ends at the first white space,
  unless it is a space and a digit; a run of white space follows it.
\<close>

definition strptime_ymd_hms :: "string \<Rightarrow> datetime option" where
  "strptime_ymd_hms s =
     (case split_at 45 (decode_utf8 s) of
        None \<Rightarrow> None
      | Some (y_tok, r1) \<Rightarrow>
          (case split_at 45 r1 of
             None \<Rightarrow> None
           | Some (m_tok, r2) \<Rightarrow>
               (let d_tok = (if take 1 r2 = [32] then take 2 r2
                             else takeWhile (\<lambda>c. \<not> is_space c) r2);
                    r3 = drop (length d_tok) r2
                in case r3 of
                     [] \<Rightarrow> None
                   | c # _ \<Rightarrow>
                       if is_space c
                       then (case split_at 58 (dropWhile is_space r3) of
                               None \<Rightarrow> None
                             | Some (h_tok, r5) \<Rightarrow>
                                 (case split_at 58 r5 of
                                    None \<Rightarrow> None
                                  | Some (mi_tok, s_tok) \<Rightarrow>
                                      make_datetime (year_field y_tok) (month_field m_tok)
                                        (day_field d_tok) (hour_field h_tok)
                                        (minute_field mi_tok) (second_field s_tok)))
                       else None)))"

definition digit_char :: "int \<Rightarrow> char" where
  "digit_char n = ''0123456789'' ! nat n"

definition pad2 :: "int \<Rightarrow> string" where
  "pad2 n = [digit_char (n div 10), digit_char (n mod 10)]"

text \<open>\<^verbatim>\<open>dt.strftime('%Y-%m-%d')\<close>\<close>

definition strftime_ymd :: "datetime \<Rightarrow> string" where
  "strftime_ymd dt =
     pad2 (dt_year dt div 100) @ pad2 (dt_year dt mod 100) @ ''-'' @ pad2 (dt_month dt) @ ''-'' @
     pad2 (dt_day dt)"

definition next_day :: "int \<times> int \<times> int \<Rightarrow> int \<times> int \<times> int" where
  "next_day ymd =
     (case ymd of (y, m, d) \<Rightarrow>
        if d < days_in_month y m then (y, m, d + 1)
        else if m < 12 then (y, m + 1, 1)
        else (y + 1, 1, 1))"

definition prev_day :: "int \<times> int \<times> int \<Rightarrow> int \<times> int \<times> int" where
  "prev_day ymd =
     (case ymd of (y, m, d) \<Rightarrow>
        if 1 < d then (y, m, d - 1)
        else if 1 < m then (y, m - 1, days_in_month y (m - 1))
        else (y - 1, 12, 31))"

fun forward :: "nat \<Rightarrow> int \<times> int \<times> int \<Rightarrow> int \<times> int \<times> int" where
  "forward 0 ymd = ymd"
| "forward (Suc n) ymd = forward n (next_day ymd)"

fun backward :: "nat \<Rightarrow> int \<times> int \<times> int \<Rightarrow> int \<times> int \<times> int" where
  "backward 0 ymd = ymd"
| "backward (Suc n) ymd = backward n (prev_day ymd)"

text \<open>
  \<^verbatim>\<open>dt + timedelta(minutes=k)\<close> (and \<^verbatim>\<open>dt - timedelta(minutes=k)\<close> as the sum with
  \<open>- k\<close>): \<^verbatim>\<open>OverflowError\<close> when the result leaves the years 1 to 9999.
\<close>

definition add_minutes :: "datetime \<Rightarrow> int \<Rightarrow> py_exception + datetime" where
  "add_minutes dt k =
     (let total = dt_hour dt * 3600 + dt_minute dt * 60 + dt_second dt + 60 * k;
          days = total div 86400;
          secs = total mod 86400
      in case (if 0 \<le> days then forward (nat days) (dt_year dt, dt_month dt, dt_day dt)
               else backward (nat (- days)) (dt_year dt, dt_month dt, dt_day dt)) of
           (y, m, d) \<Rightarrow>
             if 1 \<le> y \<and> y \<le> 9999
             then Inr \<lparr>dt_year = y, dt_month = m, dt_day = d, dt_hour = secs div 3600,
                        dt_minute = secs mod 3600 div 60, dt_second = secs mod 60\<rparr>
             else Inl OverflowError)"

text \<open>
  The first block of \<^verbatim>\<open>check_duplicate_test_result\<close>: the parsed date, if any, and
  the string the exact query compares with. The parameter is a \<^verbatim>\<open>str\<close>, as annotated.
\<close>

definition parse_test_date :: "string \<Rightarrow> datetime option \<times> string" where
  "parse_test_date test_date =
     (case strptime_ymd test_date of
        Some test_datetime \<Rightarrow> (Some test_datetime, test_date)
      | None \<Rightarrow>
          (case strptime_ymd_hms test_date of
             Some test_datetime \<Rightarrow> (Some test_datetime, strftime_ymd test_datetime)
           | None \<Rightarrow> (None, test_date)))"

section \<open>Ingestion\<close>

text \<open>One call into the storage layer: it raises when the head of \<open>faults\<close> says so.\<close>

definition storage_call :: "database \<Rightarrow> bool \<times> database" where
  "storage_call db =
     (case faults db of [] \<Rightarrow> (False, db) | f # fs \<Rightarrow> (f, db\<lparr>faults := fs\<rparr>))"

definition same_measurement :: "string \<Rightarrow> int \<Rightarrow> real \<Rightarrow> test_result \<Rightarrow> bool" where
  "same_measurement patient_id test_type_id test_value r =
     (tr_patient_id r = patient_id \<and> tr_test_type_id r = test_type_id \<and>
      tr_test_value r = test_value)"

text \<open>
  The column \<^verbatim>\<open>test_date\<close> is declared \<^verbatim>\<open>DATE\<close>, which gives it SQLite's
  \<^verbatim>\<open>NUMERIC\<close> affinity: a text that is a well-formed integer or real literal is stored
  as a number, and a text compared with the column is converted the same way. Numbers
  compare by value, texts byte by byte, and every number is below every text.
  \<open>sqlite_number\<close> is the literal as SQLite reads it: white space around it (tab to
  carriage return, and space), a sign, digits with an optional point, an optional
  exponent with at least one digit. The number is the exact value of the literal; the
  rounding to 64 bits is outside the model. A row keeps the text that was inserted, and
  \<open>numeric_affinity\<close> of it is the value SQLite stores and compares.
\<close>

datatype sql_value = SqlNumber real | SqlText string

definition sqlite_space :: "char \<Rightarrow> bool" where
  "sqlite_space c = ((9 \<le> (of_char c :: int) \<and> (of_char c :: int) \<le> 13) \<or> c = CHR '' '')"

definition sqlite_digit :: "char \<Rightarrow> bool" where
  "sqlite_digit c = (48 \<le> (of_char c :: int) \<and> (of_char c :: int) \<le> 57)"

fun decimal :: "string \<Rightarrow> int \<Rightarrow> int" where
  "decimal [] acc = acc"
| "decimal (c # cs) acc = decimal cs (10 * acc + of_char c - 48)"

text \<open>A leading sign: whether it is a minus, and the rest.\<close>

definition take_sign :: "string \<Rightarrow> bool \<times> string" where
  "take_sign z =
     (case z of
        [] \<Rightarrow> (False, z)
      | c # r \<Rightarrow>
          if c = CHR ''-'' then (True, r) else if c = CHR ''+'' then (False, r) else (False, z))"

definition scale :: "int \<Rightarrow> int \<Rightarrow> real" where
  "scale m e = (if 0 \<le> e then of_int m * 10 ^ nat e else of_int m / 10 ^ nat (- e))"

definition sqlite_number :: "string \<Rightarrow> real option" where
  "sqlite_number s =
     (case take_sign (dropWhile sqlite_space s) of
        (negative, z1) \<Rightarrow>
          (let int_digits = takeWhile sqlite_digit z1;
               z2 = dropWhile sqlite_digit z1;
               frac_digits = (if take 1 z2 = ''.'' then takeWhile sqlite_digit (drop 1 z2) else []);
               z3 = (if take 1 z2 = ''.'' then dropWhile sqlite_digit (drop 1 z2) else z2);
               has_exponent = (take 1 z3 = ''e'' \<or> take 1 z3 = ''E'');
               exp_sign = take_sign (drop 1 z3);
               exp_digits = (if has_exponent then takeWhile sqlite_digit (snd exp_sign) else []);
               z4 = (if has_exponent then dropWhile sqlite_digit (snd exp_sign) else z3);
               exponent = (if fst exp_sign then - decimal exp_digits 0 else decimal exp_digits 0);
               mantissa = decimal (int_digits @ frac_digits) 0
           in if dropWhile sqlite_space z4 = [] \<and> 0 < length (int_digits @ frac_digits) \<and>
                 (if has_exponent then 0 < length exp_digits else True)
              then Some (scale (if negative then - mantissa else mantissa)
                           (exponent - int (length frac_digits)))
              else None))"

definition numeric_affinity :: "string \<Rightarrow> sql_value" where
  "numeric_affinity s = (case sqlite_number s of Some x \<Rightarrow> SqlNumber x | None \<Rightarrow> SqlText s)"

fun sql_le :: "sql_value \<Rightarrow> sql_value \<Rightarrow> bool" where
  "sql_le (SqlNumber x) (SqlNumber y) = (x \<le> y)"
| "sql_le (SqlNumber x) (SqlText t) = True"
| "sql_le (SqlText s) (SqlNumber y) = False"
| "sql_le (SqlText s) (SqlText t) = (s \<le> t)"

text \<open>The two \<^verbatim>\<open>SELECT COUNT(*)\<close> queries.\<close>

definition exact_count :: "database \<Rightarrow> string \<Rightarrow> int \<Rightarrow> real \<Rightarrow> string \<Rightarrow> nat" where
  "exact_count db patient_id test_type_id test_value test_date_str =
     length (filter (\<lambda>r. same_measurement patient_id test_type_id test_value r \<and>
                          numeric_affinity (tr_test_date r) = numeric_affinity test_date_str)
               (test_results db))"

definition near_count :: "database \<Rightarrow> string \<Rightarrow> int \<Rightarrow> real \<Rightarrow> string \<Rightarrow> string \<Rightarrow> nat" where
  "near_count db patient_id test_type_id test_value start_date_str end_date_str =
     length (filter (\<lambda>r. same_measurement patient_id test_type_id test_value r \<and>
                          sql_le (numeric_affinity start_date_str) (numeric_affinity (tr_test_date r)) \<and>
                          sql_le (numeric_affinity (tr_test_date r)) (numeric_affinity end_date_str))
               (test_results db))"

text \<open>
  The body of the \<^verbatim>\<open>try\<close> of \<^verbatim>\<open>check_duplicate_test_result\<close>: \<^verbatim>\<open>connect\<close>, the exact
  query and, for a parsed date and a positive tolerance, the window and the near query.
\<close>

definition check_duplicate_body ::
  "database \<Rightarrow> string \<Rightarrow> int \<Rightarrow> real \<Rightarrow> string \<Rightarrow> int \<Rightarrow> (py_exception + bool) \<times> database" where
  "check_duplicate_body db patient_id test_type_id test_value test_date tolerance_minutes =
     (case storage_call db of
        (True, db1) \<Rightarrow> (Inl Sqlite3Error, db1)
      | (False, db1) \<Rightarrow>
          (case parse_test_date test_date of
             (test_datetime, test_date_str) \<Rightarrow>
               (case storage_call db1 of
                  (True, db2) \<Rightarrow> (Inl Sqlite3Error, db2)
                | (False, db2) \<Rightarrow>
                    if exact_count db2 patient_id test_type_id test_value test_date_str > 0
                    then (Inr True, db2)
                    else
                      (case test_datetime of
                         None \<Rightarrow> (Inr False, db2)
                       | Some dt \<Rightarrow>
                           if tolerance_minutes > 0
                           then (case add_minutes dt (- tolerance_minutes) of
                                   Inl e \<Rightarrow> (Inl e, db2)
                                 | Inr start_time \<Rightarrow>
                                     (case add_minutes dt tolerance_minutes of
                                        Inl e \<Rightarrow> (Inl e, db2)
                                      | Inr end_time \<Rightarrow>
                                          (case storage_call db2 of
                                             (True, db3) \<Rightarrow> (Inl Sqlite3Error, db3)
                                           | (False, db3) \<Rightarrow>
                                               (Inr (near_count db3 patient_id test_type_id test_value
                                                       (strftime_ymd start_time)
                                                       (strftime_ymd end_time) > 0), db3))))
                           else (Inr False, db2)))))"

text \<open>The \<^verbatim>\<open>except sqlite3.Error\<close> of the function; any other exception leaves it.\<close>

definition check_duplicate_test_result ::
  "database \<Rightarrow> string \<Rightarrow> int \<Rightarrow> real \<Rightarrow> string \<Rightarrow> int \<Rightarrow> (py_exception + bool) \<times> database" where
  "check_duplicate_test_result db patient_id test_type_id test_value test_date tolerance_minutes =
     (case check_duplicate_body db patient_id test_type_id test_value test_date tolerance_minutes of
        (Inl Sqlite3Error, db') \<Rightarrow> (Inr False, db')
      | (Inl OverflowError, db') \<Rightarrow> (Inl OverflowError, db')
      | (Inr found, db') \<Rightarrow> (Inr found, db'))"

text \<open>
  The \<^verbatim>\<open>INSERT\<close> of \<^verbatim>\<open>add_test_result\<close> with its \<^verbatim>\<open>connect\<close> and \<^verbatim>\<open>commit\<close>; a
  failure of any of the three leaves the table as it was and makes the function return
  \<^verbatim>\<open>False\<close>. The row stores \<^verbatim>\<open>test_date\<close> as it was passed.
\<close>

definition insert_test_result ::
  "database \<Rightarrow> string \<Rightarrow> int \<Rightarrow> real \<Rightarrow> string \<Rightarrow> string option \<Rightarrow> string option \<Rightarrow>
   bool \<times> database" where
  "insert_test_result db patient_id test_type_id test_value test_date lab_technician notes =
     (case storage_call db of
        (True, db1) \<Rightarrow> (False, db1)
      | (False, db1) \<Rightarrow>
          (case storage_call db1 of
             (True, db2) \<Rightarrow> (False, db2)
           | (False, db2) \<Rightarrow>
               (case storage_call db2 of
                  (True, db3) \<Rightarrow> (False, db3)
                | (False, db3) \<Rightarrow>
                    (True,
                     db3\<lparr>test_results := test_results db3 @
                            [\<lparr>tr_result_id = seq_test_results db3 + 1, tr_patient_id = patient_id,
                              tr_test_type_id = test_type_id, tr_test_value = test_value,
                              tr_test_date = test_date, tr_lab_technician = lab_technician,
                              tr_notes = notes\<rparr>],
                          seq_test_results := seq_test_results db3 + 1\<rparr>))))"

definition add_test_result ::
  "database \<Rightarrow> string \<Rightarrow> int \<Rightarrow> real \<Rightarrow> string \<Rightarrow> string option \<Rightarrow> string option \<Rightarrow> bool \<Rightarrow>
   (py_exception + bool) \<times> database" where
  "add_test_result db patient_id test_type_id test_value test_date lab_technician notes
     check_duplicates =
     (if check_duplicates
      then (case check_duplicate_test_result db patient_id test_type_id test_value test_date 30 of
              (Inl e, db1) \<Rightarrow> (Inl e, db1)
            | (Inr True, db1) \<Rightarrow> (Inr False, db1)
            | (Inr False, db1) \<Rightarrow>
                (case insert_test_result db1 patient_id test_type_id test_value test_date
                        lab_technician notes of
                   (ok, db2) \<Rightarrow> (Inr ok, db2)))
      else (case insert_test_result db patient_id test_type_id test_value test_date
                   lab_technician notes of
              (ok, db2) \<Rightarrow> (Inr ok, db2)))"








section \<open>The specification's wording\<close>

text \<open>
  The precedence of section 4.4 of the specification, step 3, for given bounds and
  given thresholds; it is compared with \<open>determine_test_status\<close> below.
\<close>

definition classify :: "real \<Rightarrow> real \<Rightarrow> real \<Rightarrow> real \<Rightarrow> real \<Rightarrow> string" where
  "classify test_value normal_min normal_max critical_low critical_high =
     (if test_value \<ge> critical_high then ''critical_high''
      else if test_value \<le> critical_low then ''critical_low''
      else if test_value > normal_max then ''high''
      else if test_value < normal_min then ''low''
      else ''normal'')"

text \<open>
  Candidacy of a custom range for a test type and a patient, attribute by attribute: a
  constraint is looked at only when the patient's attribute was supplied.
\<close>

definition age_compatible :: "int option \<Rightarrow> custom_range \<Rightarrow> bool" where
  "age_compatible age c =
     (case age of
        None \<Rightarrow> True
      | Some a \<Rightarrow>
          (case cr_age_min c of None \<Rightarrow> True | Some lo \<Rightarrow> lo \<le> a) \<and>
          (case cr_age_max c of None \<Rightarrow> True | Some hi \<Rightarrow> a \<le> hi))"

definition text_compatible :: "string option \<Rightarrow> string option \<Rightarrow> bool" where
  "text_compatible supplied stored =
     (if truthy supplied then (case stored of None \<Rightarrow> True | Some x \<Rightarrow> supplied = Some x)
      else True)"

definition candidate ::
  "int \<Rightarrow> int option \<Rightarrow> string option \<Rightarrow> string option \<Rightarrow> custom_range \<Rightarrow> bool" where
  "candidate test_type_id age gender condition c =
     (cr_test_type_id c = test_type_id \<and> cr_is_active c \<and> age_compatible age c \<and>
      text_compatible gender (cr_gender c) \<and> text_compatible condition (cr_condition_name c))"

section \<open>Example data\<close>

definition empty_db :: database where
  "empty_db =
     \<lparr>test_types = [], custom_test_ranges = [], test_results = [], patients = [],
      seq_test_types = 0, seq_test_results = 0, faults = []\<rparr>"

text \<open>Hemoglobin with an explicit lower critical threshold and no upper one.\<close>

definition hemoglobin_type :: test_type where
  "hemoglobin_type =
     \<lparr>tt_test_type_id = 1, tt_test_name = ''Hemoglobin'', tt_normal_min = Some 12,
      tt_normal_max = Some 16, tt_unit = Some ''g/dL'', tt_description = None,
      tt_category = None, tt_critical_low = Some 10, tt_critical_high = None,
      tt_method = None\<rparr>"

definition glucose_type :: test_type where
  "glucose_type =
     \<lparr>tt_test_type_id = 2, tt_test_name = ''Blood Glucose'', tt_normal_min = Some 70,
      tt_normal_max = Some 100, tt_unit = Some ''mg/dL'', tt_description = None,
      tt_category = None, tt_critical_low = Some 50, tt_critical_high = Some 400,
      tt_method = None\<rparr>"

definition male_range :: custom_range where
  "male_range =
     \<lparr>cr_range_id = 1, cr_test_type_id = 2, cr_range_name = ''Male'',
      cr_age_min = None, cr_age_max = None, cr_gender = Some ''Male'',
      cr_condition_name = None, cr_normal_min = Some 70, cr_normal_max = Some 110,
      cr_critical_low = None, cr_critical_high = None, cr_is_active = True,
      cr_notes = None\<rparr>"

definition male_diabetic_range :: custom_range where
  "male_diabetic_range =
     \<lparr>cr_range_id = 2, cr_test_type_id = 2, cr_range_name = ''Male diabetic'',
      cr_age_min = None, cr_age_max = None, cr_gender = Some ''Male'',
      cr_condition_name = Some ''Diabetes'', cr_normal_min = Some 80,
      cr_normal_max = Some 130, cr_critical_low = Some 70, cr_critical_high = Some 200,
      cr_is_active = True, cr_notes = None\<rparr>"

definition pediatric_range :: custom_range where
  "pediatric_range =
     \<lparr>cr_range_id = 3, cr_test_type_id = 2, cr_range_name = ''Pediatric'',
      cr_age_min = Some 0, cr_age_max = Some 12, cr_gender = None,
      cr_condition_name = None, cr_normal_min = Some 60, cr_normal_max = Some 100,
      cr_critical_low = None, cr_critical_high = None, cr_is_active = True,
      cr_notes = None\<rparr>"

definition catalogue_db :: database where
  "catalogue_db =
     \<lparr>test_types = [hemoglobin_type, glucose_type], custom_test_ranges = [],
      test_results = [], patients = [], seq_test_types = 2, seq_test_results = 0,
      faults = []\<rparr>"

definition ranges_db :: database where
  "ranges_db = catalogue_db\<lparr>custom_test_ranges := [male_range, male_diabetic_range, pediatric_range]\<rparr>"

definition pediatric_db :: database where
  "pediatric_db = catalogue_db\<lparr>custom_test_ranges := [pediatric_range]\<rparr>"



text \<open>A store holding one glucose result of the day before 15 January 2024.\<close>

definition stored_result :: test_result where
  "stored_result =
     \<lparr>tr_result_id = 1, tr_patient_id = ''P001'', tr_test_type_id = 2, tr_test_value = 95.5,
      tr_test_date = ''2024-01-14'', tr_lab_technician = None, tr_notes = None\<rparr>"

definition one_result_db :: database where
  "one_result_db = catalogue_db\<lparr>test_results := [stored_result], seq_test_results := 1\<rparr>"

definition midnight :: "int \<Rightarrow> int \<Rightarrow> int \<Rightarrow> datetime" where
  "midnight y m d =
     \<lparr>dt_year = y, dt_month = m, dt_day = d, dt_hour = 0, dt_minute = 0, dt_second = 0\<rparr>"

text \<open>Hemoglobin with an upper critical threshold only, below the derived one.\<close>

definition hemoglobin_high_only :: test_type where
  "hemoglobin_high_only =
     hemoglobin_type\<lparr>tt_critical_low := None, tt_critical_high := Some 16.5\<rparr>"

definition high_only_db :: database where
  "high_only_db = catalogue_db\<lparr>test_types := [hemoglobin_high_only, glucose_type]\<rparr>"

text \<open>A store holding one glucose result whose date was entered as \<^verbatim>\<open>2024\<close>.\<close>

definition year_only_db :: database where
  "year_only_db =
     catalogue_db\<lparr>test_results := [stored_result\<lparr>tr_test_date := ''2024''\<rparr>],
                   seq_test_results := 1\<rparr>"

section \<open>Status classification: properties\<close>

lemma truthy_Some [simp]: "truthy (Some s) = (s \<noteq> [])"
  by (cases s) (simp_all add: truthy_def)

lemma truthy_None [simp]: "truthy None = False"
  by (simp add: truthy_def)

lemma determine_looked_up:
  assumes "looked_up_range db test_name age gender = Some r"
    and "ri_normal_min r = Some lo" and "ri_normal_max r = Some hi"
  shows "determine_test_status db cached v nmin nmax test_name age gender =
         (classify v lo hi
            (fst (thresholds_in_force (ri_critical_low r) (ri_critical_high r) lo hi))
            (snd (thresholds_in_force (ri_critical_low r) (ri_critical_high r) lo hi)),
          Some r)"
  using assms
  by (cases "ri_critical_low r"; cases "ri_critical_high r")
     (simp_all add: determine_test_status_def classify_def thresholds_in_force_def Let_def)

lemma determine_cached:
  assumes "looked_up_range db test_name age gender = None"
  shows "determine_test_status db (Some c) v (Some lo) (Some hi) test_name age gender =
         (classify v lo hi
            (fst (thresholds_in_force (ri_critical_low c) (ri_critical_high c) lo hi))
            (snd (thresholds_in_force (ri_critical_low c) (ri_critical_high c) lo hi)),
          Some c)"
  using assms
  by (cases "ri_critical_low c"; cases "ri_critical_high c")
     (simp_all add: determine_test_status_def classify_def thresholds_in_force_def Let_def)

lemma determine_fresh:
  assumes "looked_up_range db test_name age gender = None"
  shows "determine_test_status db None v (Some lo) (Some hi) test_name age gender =
         (classify v lo hi (lo - (hi - lo) * 0.3) (hi + (hi - lo) * 0.3), None)"
  using assms
  by (simp add: determine_test_status_def classify_def Let_def)

lemma looked_up_range_bounds:
  assumes "looked_up_range db test_name age gender = Some r"
  shows "\<exists>name lo hi. test_name = Some name \<and> name \<noteq> [] \<and>
           r = get_age_gender_adjusted_range db name age gender None \<and>
           ri_normal_min r = Some lo \<and> ri_normal_max r = Some hi"
  using assms
  by (auto simp add: looked_up_range_def Let_def split: option.splits if_splits)

lemma looked_up_range_Some:
  assumes "name \<noteq> []" and "get_age_gender_adjusted_range db name age gender None = r"
    and "ri_normal_min r = Some lo" and "ri_normal_max r = Some hi"
  shows "looked_up_range db (Some name) age gender = Some r"
  using assms by (simp add: looked_up_range_def Let_def)


lemma looked_up_range_None [simp]: "looked_up_range db None age gender = None"
  by (simp add: looked_up_range_def)

lemma looked_up_range_unknown:
  "get_test_type_by_name db name = None \<Longrightarrow> looked_up_range db (Some name) age gender = None"
  by (simp add: looked_up_range_def get_age_gender_adjusted_range_def no_range_found_def Let_def)

lemma glucose_resolution:
  "get_age_gender_adjusted_range catalogue_db ''Blood Glucose'' None None None =
     \<lparr>ri_normal_min = Some 70, ri_normal_max = Some 100, ri_critical_low = Some 50,
      ri_critical_high = Some 400, ri_source = ''Base range'', ri_age_adjusted = False,
      ri_gender_adjusted = False\<rparr>"
  by (simp add: get_age_gender_adjusted_range_def get_best_matching_range_def
      get_test_type_by_name_def matching_ranges_def catalogue_db_def hemoglobin_type_def
      glucose_type_def table_range_def adjustments_def base_range_def)

lemma hemoglobin_resolution:
  "get_age_gender_adjusted_range catalogue_db ''Hemoglobin'' None None None =
     \<lparr>ri_normal_min = Some 12, ri_normal_max = Some 16, ri_critical_low = Some 10,
      ri_critical_high = None, ri_source = ''Base range'', ri_age_adjusted = False,
      ri_gender_adjusted = False\<rparr>"
  by (simp add: get_age_gender_adjusted_range_def get_best_matching_range_def
      get_test_type_by_name_def matching_ranges_def catalogue_db_def hemoglobin_type_def
      glucose_type_def table_range_def adjustments_def base_range_def)

text \<open>
  Claim C1: \<open>determine_test_status\<close> is said to keep a critical threshold that the
  resolution carries and to derive only the missing one. The code derives both when
  either is missing. For Hemoglobin, normal range 12 to 16, lower critical threshold 10
  and no upper one, the value 10.5 is classified \<open>critical_low\<close> (the derived lower
  threshold is 10.8) where the thresholds 10 and 17.2 of the claim give \<open>low\<close>.
\<close>

theorem C1_explicit_critical_low_overwritten:
  "ri_normal_min (get_age_gender_adjusted_range catalogue_db ''Hemoglobin'' None None None) = Some 12 \<and>
   ri_normal_max (get_age_gender_adjusted_range catalogue_db ''Hemoglobin'' None None None) = Some 16 \<and>
   ri_critical_low (get_age_gender_adjusted_range catalogue_db ''Hemoglobin'' None None None) = Some 10 \<and>
   ri_critical_high (get_age_gender_adjusted_range catalogue_db ''Hemoglobin'' None None None) = None \<and>
   fst (determine_test_status catalogue_db None 10.5 None None (Some ''Hemoglobin'') None None)
     = ''critical_low'' \<and>
   classify 10.5 12 16 10 17.2 = ''low''"
proof -
  have "looked_up_range catalogue_db (Some ''Hemoglobin'') None None =
        Some (get_age_gender_adjusted_range catalogue_db ''Hemoglobin'' None None None)"
    by (rule looked_up_range_Some[where lo = 12 and hi = 16]) (simp_all add: hemoglobin_resolution)
  then have "fst (determine_test_status catalogue_db None 10.5 None None (Some ''Hemoglobin'') None None)
     = ''critical_low''"
    by (simp add: determine_looked_up[where lo = 12 and hi = 16] hemoglobin_resolution
        thresholds_in_force_def classify_def)
  then show ?thesis
    by (simp add: hemoglobin_resolution classify_def)
qed

text \<open>
  On the thresholds in force the comparisons follow the precedence of the specification:
  \<open>critical_high\<close>, \<open>critical_low\<close>, \<open>high\<close>, \<open>low\<close>, \<open>normal\<close>.
\<close>

lemma precedence_on_thresholds_in_force:
  assumes "name \<noteq> []"
    and "get_age_gender_adjusted_range db name age gender None = r"
    and "ri_normal_min r = Some lo" and "ri_normal_max r = Some hi"
    and "thresholds_in_force (ri_critical_low r) (ri_critical_high r) lo hi = (cl, ch)"
  shows "fst (determine_test_status db cached v nmin nmax (Some name) age gender) =
           (if v \<ge> ch then ''critical_high''
            else if v \<le> cl then ''critical_low''
            else if v > hi then ''high''
            else if v < lo then ''low''
            else ''normal'') \<and>
         (v \<ge> ch \<longrightarrow>
            fst (determine_test_status db cached v nmin nmax (Some name) age gender) =
              ''critical_high'') \<and>
         (lo \<le> hi \<and> cl < v \<and> v < ch \<and> (v = lo \<or> v = hi) \<longrightarrow>
            fst (determine_test_status db cached v nmin nmax (Some name) age gender) = ''normal'')"
proof -
  have "looked_up_range db (Some name) age gender = Some r"
    using assms(1-4) by (rule looked_up_range_Some)
  then have "fst (determine_test_status db cached v nmin nmax (Some name) age gender) =
             classify v lo hi cl ch"
    using assms(3-5) by (simp add: determine_looked_up)
  then show ?thesis
    by (auto simp add: classify_def)
qed

lemma hemoglobin_high_only_resolution:
  "get_age_gender_adjusted_range high_only_db ''Hemoglobin'' None None None =
     \<lparr>ri_normal_min = Some 12, ri_normal_max = Some 16, ri_critical_low = None,
      ri_critical_high = Some 16.5, ri_source = ''Base range'', ri_age_adjusted = False,
      ri_gender_adjusted = False\<rparr>"
  by (simp add: get_age_gender_adjusted_range_def get_best_matching_range_def
      get_test_type_by_name_def matching_ranges_def high_only_db_def catalogue_db_def
      hemoglobin_high_only_def hemoglobin_type_def glucose_type_def table_range_def
      adjustments_def base_range_def)

text \<open>
  Claim C3: the status is said to follow the precedence on the resolution's thresholds,
  present or derived, so that a value at or above \<open>critical_high\<close> is \<open>critical_high\<close>
  for every resolution. The comparisons do follow the precedence, but on thresholds that
  are both derived as soon as one is missing: for Hemoglobin, normal range 12 to 16 and
  upper critical threshold 16.5 alone, the value 16.8 is \<open>high\<close>, where the precedence on
  the thresholds 10.8 and 16.5 gives \<open>critical_high\<close>.
\<close>

theorem C3_present_critical_high_not_compared:
  "ri_normal_min (get_age_gender_adjusted_range high_only_db ''Hemoglobin'' None None None) = Some 12 \<and>
   ri_normal_max (get_age_gender_adjusted_range high_only_db ''Hemoglobin'' None None None) = Some 16 \<and>
   ri_critical_low (get_age_gender_adjusted_range high_only_db ''Hemoglobin'' None None None) = None \<and>
   ri_critical_high (get_age_gender_adjusted_range high_only_db ''Hemoglobin'' None None None)
     = Some 16.5 \<and>
   fst (determine_test_status high_only_db None 16.8 None None (Some ''Hemoglobin'') None None)
     = ''high'' \<and>
   classify 16.8 12 16 10.8 16.5 = ''critical_high''"
proof -
  have "looked_up_range high_only_db (Some ''Hemoglobin'') None None =
        Some (get_age_gender_adjusted_range high_only_db ''Hemoglobin'' None None None)"
    by (rule looked_up_range_Some[where lo = 12 and hi = 16])
       (simp_all add: hemoglobin_high_only_resolution)
  then have "fst (determine_test_status high_only_db None 16.8 None None (Some ''Hemoglobin'')
                    None None) = ''high''"
    by (simp add: determine_looked_up[where lo = 12 and hi = 16] hemoglobin_high_only_resolution
        thresholds_in_force_def classify_def)
  then show ?thesis
    by (simp add: hemoglobin_high_only_resolution classify_def)
qed

text \<open>
  Claim C9: \<open>determine_test_status\<close> keeps the last range whose lookup gave both
  normal bounds, and a later call whose own lookup gives none (no test name, or a name
  the catalogue does not know) with normal bounds passed as arguments takes its critical
  thresholds from that cached range. Hence the same call returns \<open>critical_low\<close> after
  a call for Blood Glucose and \<open>normal\<close> on a fresh report generator.
\<close>

theorem C9_status_depends_on_cached_range:
  "(looked_up_range db test_name age gender = Some r \<longrightarrow>
      snd (determine_test_status db cached v nmin nmax test_name age gender) = Some r) \<and>
   looked_up_range db None age gender = None \<and>
   (get_test_type_by_name db name = None \<longrightarrow> looked_up_range db (Some name) age gender = None) \<and>
   (looked_up_range db test_name age gender = None \<longrightarrow>
      determine_test_status db (Some c) v (Some lo) (Some hi) test_name age gender =
        (classify v lo hi
           (fst (thresholds_in_force (ri_critical_low c) (ri_critical_high c) lo hi))
           (snd (thresholds_in_force (ri_critical_low c) (ri_critical_high c) lo hi)),
         Some c)) \<and>
   fst (determine_test_status catalogue_db
          (snd (determine_test_status catalogue_db None 90 None None (Some ''Blood Glucose'') None None))
          14 (Some 12) (Some 16) None None None)
     \<noteq> fst (determine_test_status catalogue_db None 14 (Some 12) (Some 16) None None None)"
proof -
  have stored: "looked_up_range db test_name age gender = Some r \<longrightarrow>
      snd (determine_test_status db cached v nmin nmax test_name age gender) = Some r"
  proof
    assume a: "looked_up_range db test_name age gender = Some r"
    from looked_up_range_bounds[OF a] obtain l h where
      "ri_normal_min r = Some l" "ri_normal_max r = Some h" by blast
    with a show "snd (determine_test_status db cached v nmin nmax test_name age gender) = Some r"
      by (simp add: determine_looked_up)
  qed
  have g: "looked_up_range catalogue_db (Some ''Blood Glucose'') None None =
        Some (get_age_gender_adjusted_range catalogue_db ''Blood Glucose'' None None None)"
    by (rule looked_up_range_Some[where lo = 70 and hi = 100]) (simp_all add: glucose_resolution)
  have first: "snd (determine_test_status catalogue_db None 90 None None (Some ''Blood Glucose'') None None)
      = Some (get_age_gender_adjusted_range catalogue_db ''Blood Glucose'' None None None)"
    using g by (simp add: determine_looked_up[where lo = 70 and hi = 100] glucose_resolution)
  have after: "fst (determine_test_status catalogue_db
          (Some (get_age_gender_adjusted_range catalogue_db ''Blood Glucose'' None None None))
          14 (Some 12) (Some 16) None None None) = ''critical_low''"
    by (simp add: determine_cached glucose_resolution thresholds_in_force_def classify_def)
  have fresh: "fst (determine_test_status catalogue_db None 14 (Some 12) (Some 16) None None None)
      = ''normal''"
    by (simp add: determine_fresh classify_def)
  have differ: "fst (determine_test_status catalogue_db
          (snd (determine_test_status catalogue_db None 90 None None (Some ''Blood Glucose'') None None))
          14 (Some 12) (Some 16) None None None)
     \<noteq> fst (determine_test_status catalogue_db None 14 (Some 12) (Some 16) None None None)"
    unfolding first after fresh by simp
  have unknown: "get_test_type_by_name db name = None \<longrightarrow>
      looked_up_range db (Some name) age gender = None"
    by (simp add: looked_up_range_unknown)
  have reads: "looked_up_range db test_name age gender = None \<longrightarrow>
      determine_test_status db (Some c) v (Some lo) (Some hi) test_name age gender =
        (classify v lo hi
           (fst (thresholds_in_force (ri_critical_low c) (ri_critical_high c) lo hi))
           (snd (thresholds_in_force (ri_critical_low c) (ri_critical_high c) lo hi)),
         Some c)"
    by (simp add: determine_cached)
  from stored unknown reads differ show ?thesis
    by (intro conjI) simp_all
qed

theorem C9_status_depends_on_cached_range_witness:
  "determine_test_status catalogue_db
     (Some (get_age_gender_adjusted_range catalogue_db ''Blood Glucose'' None None None))
     14 (Some 12) (Some 16) (Some ''Ferritin'') None None =
   (''critical_low'',
    Some (get_age_gender_adjusted_range catalogue_db ''Blood Glucose'' None None None)) \<and>
   snd (determine_test_status catalogue_db None 90 None None (Some ''Blood Glucose'') None None) =
     Some (get_age_gender_adjusted_range catalogue_db ''Blood Glucose'' None None None)"
proof -
  have u: "get_test_type_by_name catalogue_db ''Ferritin'' = None"
    by (simp add: get_test_type_by_name_def catalogue_db_def hemoglobin_type_def glucose_type_def)
  have g: "looked_up_range catalogue_db (Some ''Blood Glucose'') None None =
        Some (get_age_gender_adjusted_range catalogue_db ''Blood Glucose'' None None None)"
    by (rule looked_up_range_Some[where lo = 70 and hi = 100]) (simp_all add: glucose_resolution)
  show ?thesis
    using u g
      C9_status_depends_on_cached_range[of catalogue_db "Some ''Ferritin''" None None undefined
        undefined 14 None None "''Ferritin''"
        "get_age_gender_adjusted_range catalogue_db ''Blood Glucose'' None None None" 12 16]
      C9_status_depends_on_cached_range[of catalogue_db "Some ''Blood Glucose''" None None
        "get_age_gender_adjusted_range catalogue_db ''Blood Glucose'' None None None"
        None 90 None None]
    by (simp add: glucose_resolution thresholds_in_force_def classify_def)
qed

section \<open>Range resolution: properties\<close>

lemma conditions_candidate:
  "list_all (\<lambda>p. p c) (conditions test_type_id age gender condition) =
   candidate test_type_id age gender condition c"
  by (cases age)
     (auto simp add: conditions_def candidate_def age_compatible_def text_compatible_def
        split: option.splits)

lemma set_matching_ranges:
  "set (matching_ranges db test_type_id age gender condition) =
   {c \<in> set (custom_test_ranges db). candidate test_type_id age gender condition c}"
  by (simp add: matching_ranges_def conditions_candidate)

lemma sorted_matching_ranges:
  "sorted (map order_key (matching_ranges db test_type_id age gender condition))"
  by (simp add: matching_ranges_def)

lemma first_matching_range_least:
  assumes "matching_ranges db test_type_id age gender condition = r # rest"
    and "c \<in> set (matching_ranges db test_type_id age gender condition)"
  shows "order_key r \<le> order_key c"
  using sorted_matching_ranges[of db test_type_id age gender condition] assms
  by auto

lemma order_key_le:
  "order_key r \<le> order_key c \<longleftrightarrow>
   specificity c < specificity r \<or> (specificity c = specificity r \<and> cr_range_name r \<le> cr_range_name c)"
  by (auto simp add: order_key_def less_eq_prod_def)

lemma best_matching_range_Some:
  assumes "get_best_matching_range db test_name age gender condition = Some r"
  shows "\<exists>t rest. get_test_type_by_name db test_name = Some t \<and>
           matching_ranges db (tt_test_type_id t) age gender condition = r # rest"
  using assms by (auto simp add: get_best_matching_range_def split: option.splits list.splits)

lemma best_matching_range_None:
  assumes "get_test_type_by_name db test_name = Some t"
  shows "get_best_matching_range db test_name age gender condition = None \<longleftrightarrow>
         matching_ranges db (tt_test_type_id t) age gender condition = []"
  using assms by (auto simp add: get_best_matching_range_def split: list.splits)

lemma specificity_both:
  "specificity c \<ge> 6 \<longleftrightarrow> cr_gender c \<noteq> None \<and> cr_condition_name c \<noteq> None"
  by (auto simp add: specificity_def split: option.splits)


lemma glucose_found:
  "get_test_type_by_name catalogue_db ''Blood Glucose'' = Some glucose_type"
  "get_test_type_by_name ranges_db ''Blood Glucose'' = Some glucose_type"
  "get_test_type_by_name pediatric_db ''Blood Glucose'' = Some glucose_type"
  by (simp_all add: get_test_type_by_name_def catalogue_db_def ranges_db_def pediatric_db_def
      hemoglobin_type_def glucose_type_def)

lemma pediatric_matching:
  "matching_ranges pediatric_db 2 None None None = [pediatric_range]"
  by (simp add: matching_ranges_def pediatric_db_def catalogue_db_def conditions_def
      pediatric_range_def)

lemma diabetic_matching:
  "matching_ranges ranges_db 2 (Some 45) (Some ''Male'') (Some ''Diabetes'') =
     [male_diabetic_range, male_range]"
  by (simp add: matching_ranges_def ranges_db_def catalogue_db_def conditions_def
      pediatric_range_def male_range_def male_diabetic_range_def order_key_def specificity_def)

text \<open>
  Claim C2 says that a custom range with a constraint on an attribute that was not
  supplied is excluded. The code adds a condition to the query only for a supplied
  attribute: with no age, the active range Pediatric (ages 0 to 12) is the range
  returned.
\<close>

theorem C2_age_constraint_kept_when_age_unknown:
  "cr_is_active pediatric_range \<and> cr_age_min pediatric_range = Some 0 \<and>
   cr_age_max pediatric_range = Some 12 \<and>
   get_best_matching_range pediatric_db ''Blood Glucose'' None None None = Some pediatric_range"
  by (simp add: get_best_matching_range_def glucose_found pediatric_matching glucose_type_def)
     (simp add: pediatric_range_def)

text \<open>
  Claim C2 as amended: the candidates are the active ranges of the test type that
  satisfy the constraint of every attribute that was supplied (an age that is not
  \<^verbatim>\<open>None\<close>, a non-empty gender or condition); a constraint on an attribute that was
  not supplied is not looked at. A range is returned exactly when there is a candidate,
  and the range returned is one.
\<close>

theorem C2_candidates_check_supplied_attributes:
  assumes "get_test_type_by_name db test_name = Some t"
  shows "(c \<in> set (matching_ranges db (tt_test_type_id t) age gender condition) \<longleftrightarrow>
            c \<in> set (custom_test_ranges db) \<and> cr_test_type_id c = tt_test_type_id t \<and>
            cr_is_active c \<and>
            (\<forall>a lo. age = Some a \<and> cr_age_min c = Some lo \<longrightarrow> lo \<le> a) \<and>
            (\<forall>a hi. age = Some a \<and> cr_age_max c = Some hi \<longrightarrow> a \<le> hi) \<and>
            (truthy gender \<longrightarrow> cr_gender c = None \<or> cr_gender c = gender) \<and>
            (truthy condition \<longrightarrow> cr_condition_name c = None \<or> cr_condition_name c = condition)) \<and>
         (get_best_matching_range db test_name age gender condition = None \<longleftrightarrow>
            set (matching_ranges db (tt_test_type_id t) age gender condition) = {}) \<and>
         (\<forall>r. get_best_matching_range db test_name age gender condition = Some r \<longrightarrow>
            r \<in> set (matching_ranges db (tt_test_type_id t) age gender condition))"
proof -
  have "candidate (tt_test_type_id t) age gender condition c \<longleftrightarrow>
          cr_test_type_id c = tt_test_type_id t \<and> cr_is_active c \<and>
          (\<forall>a lo. age = Some a \<and> cr_age_min c = Some lo \<longrightarrow> lo \<le> a) \<and>
          (\<forall>a hi. age = Some a \<and> cr_age_max c = Some hi \<longrightarrow> a \<le> hi) \<and>
          (truthy gender \<longrightarrow> cr_gender c = None \<or> cr_gender c = gender) \<and>
          (truthy condition \<longrightarrow> cr_condition_name c = None \<or> cr_condition_name c = condition)"
    by (auto simp add: candidate_def age_compatible_def text_compatible_def split: option.splits)
  then have members: "c \<in> set (matching_ranges db (tt_test_type_id t) age gender condition) \<longleftrightarrow>
            c \<in> set (custom_test_ranges db) \<and> cr_test_type_id c = tt_test_type_id t \<and>
            cr_is_active c \<and>
            (\<forall>a lo. age = Some a \<and> cr_age_min c = Some lo \<longrightarrow> lo \<le> a) \<and>
            (\<forall>a hi. age = Some a \<and> cr_age_max c = Some hi \<longrightarrow> a \<le> hi) \<and>
            (truthy gender \<longrightarrow> cr_gender c = None \<or> cr_gender c = gender) \<and>
            (truthy condition \<longrightarrow> cr_condition_name c = None \<or> cr_condition_name c = condition)"
    by (simp add: set_matching_ranges)
  have none: "get_best_matching_range db test_name age gender condition = None \<longleftrightarrow>
            set (matching_ranges db (tt_test_type_id t) age gender condition) = {}"
    using best_matching_range_None[OF assms] by simp
  have some: "\<forall>r. get_best_matching_range db test_name age gender condition = Some r \<longrightarrow>
            r \<in> set (matching_ranges db (tt_test_type_id t) age gender condition)"
  proof (intro allI impI)
    fix r assume "get_best_matching_range db test_name age gender condition = Some r"
    from best_matching_range_Some[OF this] assms
    show "r \<in> set (matching_ranges db (tt_test_type_id t) age gender condition)" by auto
  qed
  from members none some show ?thesis by blast
qed

theorem C2_candidates_check_supplied_attributes_witness:
  "pediatric_range \<in> set (matching_ranges pediatric_db (tt_test_type_id glucose_type) None None None) \<and>
   get_best_matching_range pediatric_db ''Blood Glucose'' None None None \<noteq> None"
proof -
  note c2 = C2_candidates_check_supplied_attributes[OF glucose_found(3),
      of pediatric_range None None None]
  have m: "pediatric_range \<in>
      set (matching_ranges pediatric_db (tt_test_type_id glucose_type) None None None)"
    by (rule iffD2[OF c2[THEN conjunct1]])
       (simp add: pediatric_db_def catalogue_db_def pediatric_range_def glucose_type_def)
  then have "set (matching_ranges pediatric_db (tt_test_type_id glucose_type) None None None) \<noteq> {}"
    by auto
  with c2[THEN conjunct2, THEN conjunct1] m show ?thesis by simp
qed

text \<open>
  Claim C4: the range returned is a candidate of the highest specificity score (4 for a
  condition, 2 for a gender, 1 for an age bound) and, among those, of the least label; so
  when a candidate has both gender and condition set, the range returned has both, never
  a range with only the gender.
\<close>

theorem C4_most_specific_then_label:
  assumes "get_test_type_by_name db test_name = Some t"
    and "get_best_matching_range db test_name age gender condition = Some r"
    and "c \<in> set (matching_ranges db (tt_test_type_id t) age gender condition)"
  shows "r \<in> set (matching_ranges db (tt_test_type_id t) age gender condition) \<and>
         specificity c =
           4 * (if cr_condition_name c = None then 0 else 1) +
           2 * (if cr_gender c = None then 0 else 1) +
           (if cr_age_min c = None \<and> cr_age_max c = None then 0 else 1) \<and>
         (specificity c < specificity r \<or>
          (specificity c = specificity r \<and> cr_range_name r \<le> cr_range_name c)) \<and>
         (cr_gender c \<noteq> None \<and> cr_condition_name c \<noteq> None \<longrightarrow>
            cr_gender r \<noteq> None \<and> cr_condition_name r \<noteq> None)"
proof -
  from best_matching_range_Some[OF assms(2)] assms(1) obtain rest where
    first: "matching_ranges db (tt_test_type_id t) age gender condition = r # rest" by auto
  then have mem: "r \<in> set (matching_ranges db (tt_test_type_id t) age gender condition)" by simp
  have score: "specificity c =
           4 * (if cr_condition_name c = None then 0 else 1) +
           2 * (if cr_gender c = None then 0 else 1) +
           (if cr_age_min c = None \<and> cr_age_max c = None then 0 else 1)"
    by (auto simp add: specificity_def split: option.splits)
  have least: "specificity c < specificity r \<or>
          (specificity c = specificity r \<and> cr_range_name r \<le> cr_range_name c)"
    using first_matching_range_least[OF first assms(3)] by (simp add: order_key_le)
  have both: "cr_gender c \<noteq> None \<and> cr_condition_name c \<noteq> None \<longrightarrow>
            cr_gender r \<noteq> None \<and> cr_condition_name r \<noteq> None"
  proof
    assume "cr_gender c \<noteq> None \<and> cr_condition_name c \<noteq> None"
    then have "specificity c \<ge> 6" by (simp add: specificity_both)
    with least have "specificity r \<ge> 6" by auto
    then show "cr_gender r \<noteq> None \<and> cr_condition_name r \<noteq> None" by (simp add: specificity_both)
  qed
  from mem score least both show ?thesis by blast
qed

theorem C4_most_specific_then_label_witness:
  "get_best_matching_range ranges_db ''Blood Glucose'' (Some 45) (Some ''Male'') (Some ''Diabetes'')
     = Some male_diabetic_range \<and>
   male_range \<in> set (matching_ranges ranges_db (tt_test_type_id glucose_type) (Some 45)
                       (Some ''Male'') (Some ''Diabetes'')) \<and>
   specificity male_range < specificity male_diabetic_range"
proof -
  have best: "get_best_matching_range ranges_db ''Blood Glucose'' (Some 45) (Some ''Male'')
                (Some ''Diabetes'') = Some male_diabetic_range"
    by (simp add: get_best_matching_range_def glucose_found glucose_type_def diabetic_matching)
  have mem: "male_range \<in> set (matching_ranges ranges_db (tt_test_type_id glucose_type) (Some 45)
                       (Some ''Male'') (Some ''Diabetes''))"
    by (simp add: glucose_type_def diabetic_matching)
  have "cr_range_name male_range < cr_range_name male_diabetic_range"
    by (simp add: male_range_def male_diabetic_range_def)
  with C4_most_specific_then_label[OF glucose_found(2) best mem] best mem show ?thesis
    by auto
qed

lemma table_range_age_adjusted:
  assumes "ri_age_adjusted (table_range t name age gender)"
  shows "age \<noteq> None \<and>
         (\<exists>test_adj key by_age lo hi.
            map_of adjustments name = Some test_adj \<and> map_of test_adj key = Some by_age \<and>
            map_of by_age (age_group_of age) = Some (lo, hi) \<and>
            ri_normal_min (table_range t name age gender) = Some lo \<and>
            ri_normal_max (table_range t name age gender) = Some hi)"
  using assms
  by (auto simp add: table_range_def base_range_def Let_def split: option.splits if_splits)

lemma table_range_gender_adjusted:
  assumes "ri_gender_adjusted (table_range t name age gender)"
  shows "\<exists>g test_adj by_age lo hi.
            gender = Some g \<and> g \<noteq> [] \<and>
            map_of adjustments name = Some test_adj \<and> map_of test_adj g = Some by_age \<and>
            map_of by_age (age_group_of age) = Some (lo, hi) \<and>
            ri_normal_min (table_range t name age gender) = Some lo \<and>
            ri_normal_max (table_range t name age gender) = Some hi"
  using assms
  by (cases gender)
     (auto simp add: table_range_def base_range_def Let_def split: option.splits if_splits)


lemma resolution_custom:
  assumes "get_best_matching_range db name age gender condition = Some c"
  shows "ri_age_adjusted (get_age_gender_adjusted_range db name age gender condition) = (age \<noteq> None) \<and>
         ri_gender_adjusted (get_age_gender_adjusted_range db name age gender condition) = (gender \<noteq> None) \<and>
         ri_source (get_age_gender_adjusted_range db name age gender condition) =
           ''Custom range: '' @ cr_range_name c"
proof -
  from best_matching_range_Some[OF assms] obtain t where
    "get_test_type_by_name db name = Some t" by blast
  with assms show ?thesis
    by (simp add: get_age_gender_adjusted_range_def Let_def split: option.splits)
qed

lemma resolution_no_custom:
  assumes "get_best_matching_range db name age gender condition = None"
    and "get_test_type_by_name db name = Some t"
  shows "get_age_gender_adjusted_range db name age gender condition = table_range t name age gender"
  using assms by (simp add: get_age_gender_adjusted_range_def Let_def)

lemma resolution_unknown:
  assumes "get_test_type_by_name db name = None"
  shows "get_age_gender_adjusted_range db name age gender condition = no_range_found"
  using assms by (simp add: get_age_gender_adjusted_range_def Let_def)

lemma glucose_not_in_table: "map_of adjustments ''Blood Glucose'' = None"
  by (simp add: adjustments_def)

lemma age_only_matching:
  "matching_ranges ranges_db 2 (Some 45) None None = [male_diabetic_range, male_range]"
  by (simp add: matching_ranges_def ranges_db_def catalogue_db_def conditions_def
      pediatric_range_def male_range_def male_diabetic_range_def order_key_def specificity_def)

lemma gender_only_matching:
  "matching_ranges ranges_db 2 None (Some ''Male'') None =
     [male_diabetic_range, male_range, pediatric_range]"
  by (simp add: matching_ranges_def ranges_db_def catalogue_db_def conditions_def
      pediatric_range_def male_range_def male_diabetic_range_def order_key_def specificity_def)

text \<open>
  Claim C8 says that \<open>age_adjusted\<close> is set only when the age chose an age bucket and
  \<open>gender_adjusted\<close> only when a gender branch of the built-in table was used. For a
  custom range the code sets them to \<^verbatim>\<open>age is not None\<close> and \<^verbatim>\<open>gender is not None\<close>: Blood
  Glucose is no key of the table, the range chosen for age 45 has no age bound, and both
  flags are set.
\<close>

theorem C8_flags_set_without_table:
  "map_of adjustments ''Blood Glucose'' = None \<and>
   get_best_matching_range ranges_db ''Blood Glucose'' (Some 45) None None
     = Some male_diabetic_range \<and>
   cr_age_min male_diabetic_range = None \<and> cr_age_max male_diabetic_range = None \<and>
   ri_age_adjusted (get_age_gender_adjusted_range ranges_db ''Blood Glucose'' (Some 45) None None) \<and>
   ri_gender_adjusted
     (get_age_gender_adjusted_range ranges_db ''Blood Glucose'' None (Some ''Male'') None)"
proof -
  have a: "get_best_matching_range ranges_db ''Blood Glucose'' (Some 45) None None
     = Some male_diabetic_range"
    by (simp add: get_best_matching_range_def glucose_found glucose_type_def age_only_matching)
  have g: "get_best_matching_range ranges_db ''Blood Glucose'' None (Some ''Male'') None
     = Some male_diabetic_range"
    by (simp add: get_best_matching_range_def glucose_found glucose_type_def gender_only_matching)
  have "cr_age_min male_diabetic_range = None \<and> cr_age_max male_diabetic_range = None"
    by (simp add: male_diabetic_range_def)
  with a resolution_custom[OF a] resolution_custom[OF g] glucose_not_in_table show ?thesis
    by simp
qed

text \<open>
  Claim C8 as amended, by the source of the resolution. No test type: both flags are
  false. A custom range: \<open>age_adjusted\<close> says that an age was supplied and
  \<open>gender_adjusted\<close> that a gender was, whatever the range constrains. Otherwise:
  \<open>age_adjusted\<close> is set only if an age was supplied and the bounds are the table's
  for the age group of that age, and \<open>gender_adjusted\<close> only if a non-empty gender
  was supplied and the bounds are those of its branch of the table.
\<close>

theorem C8_flags_by_source:
  assumes "r = get_age_gender_adjusted_range db name age gender condition"
  shows "(get_test_type_by_name db name = None \<longrightarrow>
            \<not> ri_age_adjusted r \<and> \<not> ri_gender_adjusted r) \<and>
         (\<forall>c. get_best_matching_range db name age gender condition = Some c \<longrightarrow>
            ri_age_adjusted r = (age \<noteq> None) \<and> ri_gender_adjusted r = (gender \<noteq> None)) \<and>
         (get_best_matching_range db name age gender condition = None \<longrightarrow>
            (ri_age_adjusted r \<longrightarrow>
               age \<noteq> None \<and>
               (\<exists>test_adj key by_age lo hi.
                  map_of adjustments name = Some test_adj \<and> map_of test_adj key = Some by_age \<and>
                  map_of by_age (age_group_of age) = Some (lo, hi) \<and>
                  ri_normal_min r = Some lo \<and> ri_normal_max r = Some hi)) \<and>
            (ri_gender_adjusted r \<longrightarrow>
               (\<exists>g test_adj by_age lo hi.
                  gender = Some g \<and> g \<noteq> [] \<and>
                  map_of adjustments name = Some test_adj \<and> map_of test_adj g = Some by_age \<and>
                  map_of by_age (age_group_of age) = Some (lo, hi) \<and>
                  ri_normal_min r = Some lo \<and> ri_normal_max r = Some hi)))"
proof -
  have unknown: "get_test_type_by_name db name = None \<longrightarrow>
            \<not> ri_age_adjusted r \<and> \<not> ri_gender_adjusted r"
    by (simp add: assms resolution_unknown no_range_found_def)
  have custom: "\<forall>c. get_best_matching_range db name age gender condition = Some c \<longrightarrow>
            ri_age_adjusted r = (age \<noteq> None) \<and> ri_gender_adjusted r = (gender \<noteq> None)"
    using resolution_custom[of db name age gender condition] by (simp add: assms)
  have table: "get_best_matching_range db name age gender condition = None \<longrightarrow>
            (ri_age_adjusted r \<longrightarrow>
               age \<noteq> None \<and>
               (\<exists>test_adj key by_age lo hi.
                  map_of adjustments name = Some test_adj \<and> map_of test_adj key = Some by_age \<and>
                  map_of by_age (age_group_of age) = Some (lo, hi) \<and>
                  ri_normal_min r = Some lo \<and> ri_normal_max r = Some hi)) \<and>
            (ri_gender_adjusted r \<longrightarrow>
               (\<exists>g test_adj by_age lo hi.
                  gender = Some g \<and> g \<noteq> [] \<and>
                  map_of adjustments name = Some test_adj \<and> map_of test_adj g = Some by_age \<and>
                  map_of by_age (age_group_of age) = Some (lo, hi) \<and>
                  ri_normal_min r = Some lo \<and> ri_normal_max r = Some hi))"
  proof
    assume none: "get_best_matching_range db name age gender condition = None"
    show "(ri_age_adjusted r \<longrightarrow>
               age \<noteq> None \<and>
               (\<exists>test_adj key by_age lo hi.
                  map_of adjustments name = Some test_adj \<and> map_of test_adj key = Some by_age \<and>
                  map_of by_age (age_group_of age) = Some (lo, hi) \<and>
                  ri_normal_min r = Some lo \<and> ri_normal_max r = Some hi)) \<and>
            (ri_gender_adjusted r \<longrightarrow>
               (\<exists>g test_adj by_age lo hi.
                  gender = Some g \<and> g \<noteq> [] \<and>
                  map_of adjustments name = Some test_adj \<and> map_of test_adj g = Some by_age \<and>
                  map_of by_age (age_group_of age) = Some (lo, hi) \<and>
                  ri_normal_min r = Some lo \<and> ri_normal_max r = Some hi))"
    proof (cases "get_test_type_by_name db name")
      case None
      then show ?thesis by (simp add: assms resolution_unknown no_range_found_def)
    next
      case (Some t)
      have r: "r = table_range t name age gender"
        using resolution_no_custom[OF none Some] assms by simp
      show ?thesis
        unfolding r
        using table_range_age_adjusted[of t name age gender]
              table_range_gender_adjusted[of t name age gender]
        by blast
    qed
  qed
  from unknown custom table show ?thesis by blast
qed


lemma hemoglobin_male_resolution:
  "get_age_gender_adjusted_range catalogue_db ''Hemoglobin'' (Some 30) (Some ''Male'') None =
     \<lparr>ri_normal_min = Some 13.8, ri_normal_max = Some 17.2, ri_critical_low = Some 10,
      ri_critical_high = None, ri_source = ''Age/gender adjusted (adult, Male)'',
      ri_age_adjusted = True, ri_gender_adjusted = True\<rparr>"
  by (simp add: get_age_gender_adjusted_range_def get_best_matching_range_def
      get_test_type_by_name_def matching_ranges_def catalogue_db_def hemoglobin_type_def
      glucose_type_def table_range_def adjustments_def base_range_def age_group_of_def)

theorem C8_flags_by_source_witness:
  "ri_age_adjusted
     (get_age_gender_adjusted_range catalogue_db ''Hemoglobin'' (Some 30) (Some ''Male'') None) \<and>
   (\<exists>test_adj by_age.
      map_of adjustments ''Hemoglobin'' = Some test_adj \<and> map_of test_adj ''Male'' = Some by_age \<and>
      map_of by_age (age_group_of (Some 30)) = Some (13.8, 17.2))"
proof -
  have none: "get_best_matching_range catalogue_db ''Hemoglobin'' (Some 30) (Some ''Male'') None = None"
    by (simp add: get_best_matching_range_def get_test_type_by_name_def matching_ranges_def
        catalogue_db_def hemoglobin_type_def)
  have flag: "ri_gender_adjusted
     (get_age_gender_adjusted_range catalogue_db ''Hemoglobin'' (Some 30) (Some ''Male'') None)"
    by (simp add: hemoglobin_male_resolution)
  from C8_flags_by_source[OF refl, of catalogue_db "''Hemoglobin''" "Some 30" "Some ''Male''" None]
    none flag
  have "\<exists>g test_adj by_age lo hi.
          Some ''Male'' = Some g \<and> g \<noteq> [] \<and>
          map_of adjustments ''Hemoglobin'' = Some test_adj \<and> map_of test_adj g = Some by_age \<and>
          map_of by_age (age_group_of (Some 30)) = Some (lo, hi) \<and>
          ri_normal_min (get_age_gender_adjusted_range catalogue_db ''Hemoglobin'' (Some 30)
                           (Some ''Male'') None) = Some lo \<and>
          ri_normal_max (get_age_gender_adjusted_range catalogue_db ''Hemoglobin'' (Some 30)
                           (Some ''Male'') None) = Some hi"
    by blast
  then show ?thesis
    by (auto simp add: hemoglobin_male_resolution)
qed

section \<open>Ingestion: properties\<close>

lemma storage_call_no_faults: "faults db = [] \<Longrightarrow> storage_call db = (False, db)"
  by (simp add: storage_call_def)

lemma exact_count_pos:
  "exact_count db pid tid v s > 0 \<longleftrightarrow>
   (\<exists>r\<in>set (test_results db).
      same_measurement pid tid v r \<and> numeric_affinity (tr_test_date r) = numeric_affinity s)"
  by (auto simp add: exact_count_def filter_empty_conv)

lemma near_count_pos:
  "near_count db pid tid v a b > 0 \<longleftrightarrow>
   (\<exists>r\<in>set (test_results db).
      same_measurement pid tid v r \<and>
      sql_le (numeric_affinity a) (numeric_affinity (tr_test_date r)) \<and>
      sql_le (numeric_affinity (tr_test_date r)) (numeric_affinity b))"
  by (auto simp add: near_count_def filter_empty_conv)

lemma check_body_no_faults:
  assumes "faults db = []" and "parse_test_date d = (test_datetime, test_date_str)"
  shows "check_duplicate_body db pid tid v d tol =
     (if exact_count db pid tid v test_date_str > 0 then (Inr True, db)
      else case test_datetime of
             None \<Rightarrow> (Inr False, db)
           | Some dt \<Rightarrow>
               if tol > 0
               then (case add_minutes dt (- tol) of
                       Inl e \<Rightarrow> (Inl e, db)
                     | Inr start_time \<Rightarrow>
                         (case add_minutes dt tol of
                            Inl e \<Rightarrow> (Inl e, db)
                          | Inr end_time \<Rightarrow>
                              (Inr (near_count db pid tid v (strftime_ymd start_time)
                                      (strftime_ymd end_time) > 0), db)))
               else (Inr False, db))"
  using assms
  by (simp add: check_duplicate_body_def storage_call_no_faults split: option.splits sum.splits)

lemma add_minutes_error: "add_minutes dt k = Inl e \<Longrightarrow> e = OverflowError"
  by (auto simp add: add_minutes_def Let_def split: prod.splits if_splits)


lemma check_result_of_body:
  "check_duplicate_test_result db pid tid v d tol =
     (case check_duplicate_body db pid tid v d tol of
        (Inl Sqlite3Error, db') \<Rightarrow> (Inr False, db')
      | (Inl OverflowError, db') \<Rightarrow> (Inl OverflowError, db')
      | (Inr found, db') \<Rightarrow> (Inr found, db'))"
  by (simp add: check_duplicate_test_result_def)

lemma check_no_faults:
  assumes "faults db = []" and "parse_test_date d = (test_datetime, test_date_str)"
  shows "check_duplicate_test_result db pid tid v d tol =
     (if exact_count db pid tid v test_date_str > 0 then (Inr True, db)
      else case test_datetime of
             None \<Rightarrow> (Inr False, db)
           | Some dt \<Rightarrow>
               if tol > 0
               then (case add_minutes dt (- tol) of
                       Inl e \<Rightarrow> (Inl OverflowError, db)
                     | Inr start_time \<Rightarrow>
                         (case add_minutes dt tol of
                            Inl e \<Rightarrow> (Inl OverflowError, db)
                          | Inr end_time \<Rightarrow>
                              (Inr (near_count db pid tid v (strftime_ymd start_time)
                                      (strftime_ymd end_time) > 0), db)))
               else (Inr False, db))"
  unfolding check_result_of_body check_body_no_faults[OF assms]
  by (auto split: option.splits sum.splits dest: add_minutes_error)

text \<open>
  What the check computes on a store that answers, with the comparisons as SQLite makes
  them on the column.
\<close>

lemma duplicate_check_on_answering_store:
  assumes "faults db = []" and "parse_test_date test_date = (test_datetime, test_date_str)"
  shows "fst (check_duplicate_test_result db patient_id test_type_id test_value test_date
                tolerance_minutes) = Inr True \<longleftrightarrow>
           (\<exists>r\<in>set (test_results db).
              tr_patient_id r = patient_id \<and> tr_test_type_id r = test_type_id \<and>
              tr_test_value r = test_value \<and>
              numeric_affinity (tr_test_date r) = numeric_affinity test_date_str) \<or>
           (\<exists>dt start_time end_time.
              test_datetime = Some dt \<and> tolerance_minutes > 0 \<and>
              add_minutes dt (- tolerance_minutes) = Inr start_time \<and>
              add_minutes dt tolerance_minutes = Inr end_time \<and>
              (\<exists>r\<in>set (test_results db).
                 tr_patient_id r = patient_id \<and> tr_test_type_id r = test_type_id \<and>
                 tr_test_value r = test_value \<and>
                 sql_le (numeric_affinity (strftime_ymd start_time))
                   (numeric_affinity (tr_test_date r)) \<and>
                 sql_le (numeric_affinity (tr_test_date r))
                   (numeric_affinity (strftime_ymd end_time))))"
  unfolding check_no_faults[OF assms] exact_count_pos near_count_pos same_measurement_def
  by (auto split: option.splits sum.splits)

text \<open>
  Claim C5: the check is said to return true exactly on an exact match of the normalised
  day string or on a near match in the window of days, and to compare a date that does
  not parse as an opaque string. The code leaves a date in the format
  \<^verbatim>\<open>%Y-%m-%d\<close> as it was written: with no tolerance, \<^verbatim>\<open>2024-1-14\<close> is no duplicate of
  the result stored for \<^verbatim>\<open>2024-01-14\<close>, the day both dates name. And the column compares
  texts that read as numbers by value: \<^verbatim>\<open>2024.0\<close>, which does not parse, is a duplicate
  of the result stored with the date \<^verbatim>\<open>2024\<close>.
\<close>

theorem C5_day_string_not_normalised:
  "fst (parse_test_date ''2024-1-14'') = Some (midnight 2024 1 14) \<and>
   strftime_ymd (midnight 2024 1 14) = ''2024-01-14'' \<and>
   map tr_test_date (test_results one_result_db) = [''2024-01-14''] \<and>
   fst (check_duplicate_test_result one_result_db ''P001'' 2 95.5 ''2024-01-14'' 0) = Inr True \<and>
   fst (check_duplicate_test_result one_result_db ''P001'' 2 95.5 ''2024-1-14'' 0) = Inr False \<and>
   fst (parse_test_date ''2024.0'') = None \<and>
   map tr_test_date (test_results year_only_db) = [''2024''] \<and>
   fst (check_duplicate_test_result year_only_db ''P001'' 2 95.5 ''2024.0'' 30) = Inr True"
  by code_simp




text \<open>
  Claim C7: a second submission of the same patient, test type, value and date with
  duplicate checking on is said to be rejected. For the date \<^verbatim>\<open>2024-01-15 10:30:00\<close>
  the check compares the day \<^verbatim>\<open>2024-01-15\<close> with the stored text, which still carries
  the time, so neither query matches: the second submission is accepted and two rows are
  stored.
\<close>

theorem C7_timestamped_resubmission_accepted:
  "fst (add_test_result empty_db ''P001'' 2 95.5 ''2024-01-15 10:30:00'' None None False) =
     Inr True \<and>
   fst (add_test_result
          (snd (add_test_result empty_db ''P001'' 2 95.5 ''2024-01-15 10:30:00'' None None False))
          ''P001'' 2 95.5 ''2024-01-15 10:30:00'' None None True) = Inr True \<and>
   map tr_test_date (test_results (snd (add_test_result
          (snd (add_test_result empty_db ''P001'' 2 95.5 ''2024-01-15 10:30:00'' None None False))
          ''P001'' 2 95.5 ''2024-01-15 10:30:00'' None None True))) =
     [''2024-01-15 10:30:00'', ''2024-01-15 10:30:00'']"
  by code_simp

section \<open>Import: properties\<close>













end
